theory Spec2Isabelle
  imports Complex_Main "HOL-Library.AList" "HOL-Library.Sublist"
begin

section \<open>Python values\<close>

text \<open>
  The client of \<^verbatim>\<open>nova_poshta_api.py\<close> works on untyped JSON data. A value is one of
  the shapes \<^verbatim>\<open>json\<close> produces. A \<^verbatim>\<open>str\<close> is the list of its UTF-8 bytes; a \<^verbatim>\<open>float\<close> is
  the real number it denotes (infinities and NaN are outside the model); a
  \<^verbatim>\<open>dict\<close> is an association list in insertion order, read by its first binding of a key
  and written by \<open>AList.update\<close>, which overwrites in place or appends, as Python does.
\<close>

datatype pyval =
    PNone
  | PBool bool
  | PInt int
  | PFloat real
  | PStr string
  | PList "pyval list"
  | PDict "(string \<times> pyval) list"

type_synonym pydict = "(string \<times> pyval) list"

text \<open>Every exception the modelled code can raise is a value on the left of a sum.\<close>

datatype py_error =
    AttributeError | TypeError | KeyError | IndexError | ValueError | OverflowError
  | ZeroDivisionError | OtherError string

definition and_then :: "py_error + 'a \<Rightarrow> ('a \<Rightarrow> py_error + 'b) \<Rightarrow> py_error + 'b" where
  "and_then r f = (case r of Inl e \<Rightarrow> Inl e | Inr x \<Rightarrow> f x)"

text \<open>A list comprehension: the items in order, stopping at the first exception.\<close>

fun for_each :: "('a \<Rightarrow> py_error + 'b) \<Rightarrow> 'a list \<Rightarrow> py_error + 'b list" where
  "for_each f [] = Inr []"
| "for_each f (x # xs) = and_then (f x) (\<lambda>y. and_then (for_each f xs) (\<lambda>ys. Inr (y # ys)))"

text \<open>Truth value testing (\<^verbatim>\<open>if x\<close>, \<^verbatim>\<open>not x\<close>, \<^verbatim>\<open>x or y\<close>).\<close>

fun truthy :: "pyval \<Rightarrow> bool" where
  "truthy PNone = False"
| "truthy (PBool b) = b"
| "truthy (PInt i) = (i \<noteq> 0)"
| "truthy (PFloat r) = (r \<noteq> 0)"
| "truthy (PStr s) = (s \<noteq> [])"
| "truthy (PList xs) = (xs \<noteq> [])"
| "truthy (PDict d) = (d \<noteq> [])"

definition py_or :: "pyval \<Rightarrow> pyval \<Rightarrow> pyval" where
  "py_or x y = (if truthy x then x else y)"

text \<open>\<^verbatim>\<open>d.get(k)\<close>, \<^verbatim>\<open>d.get(k, default)\<close> and \<^verbatim>\<open>d[k]\<close> on a dict.\<close>

definition get :: "pydict \<Rightarrow> string \<Rightarrow> pyval" where
  "get d k = (case map_of d k of None \<Rightarrow> PNone | Some v \<Rightarrow> v)"

definition get_default :: "pydict \<Rightarrow> string \<Rightarrow> pyval \<Rightarrow> pyval" where
  "get_default d k dflt = (case map_of d k of None \<Rightarrow> dflt | Some v \<Rightarrow> v)"




text \<open>\<^verbatim>\<open>{**a, **b}\<close>: the bindings of \<open>b\<close> written over \<open>a\<close>, in order.\<close>

definition dict_merge :: "pydict \<Rightarrow> pydict \<Rightarrow> pydict" where
  "dict_merge a b = foldl (\<lambda>d (k, v). AList.update k v d) a b"

text \<open>
  Iterating a str yields its characters: in UTF-8, a leading byte with the continuation
  bytes (\<open>0x80\<close> to \<open>0xBF\<close>) after it.
\<close>

definition is_continuation :: "char \<Rightarrow> bool" where
  "is_continuation c = (128 \<le> (of_char c :: nat) \<and> (of_char c :: nat) < 192)"

function utf8_chars :: "string \<Rightarrow> string list" where
  "utf8_chars [] = []"
| "utf8_chars (c # cs) = (c # takeWhile is_continuation cs) # utf8_chars (dropWhile is_continuation cs)"
  by pat_completeness auto
termination
  by (relation "measure length") (auto simp: length_dropWhile_le less_Suc_eq_le)

text \<open>
  \<^verbatim>\<open>for x in v\<close>: the items of a list, the characters of a str, the keys of a dict;
  nothing else JSON yields is iterable. \<^verbatim>\<open>len(v)\<close> and \<^verbatim>\<open>v[0]\<close> likewise; a dict of JSON
  has string keys only, so \<^verbatim>\<open>d[0]\<close> is a KeyError.
\<close>

definition py_iter :: "pyval \<Rightarrow> py_error + pyval list" where
  "py_iter v =
     (case v of
        PList xs \<Rightarrow> Inr xs
      | PStr s \<Rightarrow> Inr (map PStr (utf8_chars s))
      | PDict d \<Rightarrow> Inr (map (PStr \<circ> fst) d)
      | _ \<Rightarrow> Inl TypeError)"



text \<open>\<^verbatim>\<open>sep.join(v)\<close>: every item must be a str.\<close>

fun join :: "string \<Rightarrow> string list \<Rightarrow> string" where
  "join sep [] = []"
| "join sep [x] = x"
| "join sep (x # y # ys) = x @ sep @ join sep (y # ys)"

definition as_str :: "pyval \<Rightarrow> py_error + string" where
  "as_str v = (case v of PStr s \<Rightarrow> Inr s | _ \<Rightarrow> Inl TypeError)"

definition py_join :: "string \<Rightarrow> pyval \<Rightarrow> py_error + string" where
  "py_join sep v = and_then (py_iter v) (\<lambda>xs. and_then (for_each as_str xs) (\<lambda>ss. Inr (join sep ss)))"

text \<open>\<^verbatim>\<open>sub in s\<close> on two strs.\<close>

fun contains :: "string \<Rightarrow> string \<Rightarrow> bool" where
  "contains sub [] = (sub = [])"
| "contains sub (c # cs) = (prefix sub (c # cs) \<or> contains sub cs)"

section \<open>The Python runtime\<close>

text \<open>
  Built-ins whose tables are not part of the repository are parameters of the model:
  every theorem holds for each choice of them.
\<close>

datatype PersonProperty = SENDER | RECIPIENT

record datetime =
  year :: int
  month :: int
  day :: int

record runtime =
  lower :: "string \<Rightarrow> string"
  strip :: "string \<Rightarrow> string"
  str_of_float :: "real \<Rightarrow> string"
  str_of_int :: "int \<Rightarrow> string"
  int_of_str :: "string \<Rightarrow> int option"
  strftime :: "datetime \<Rightarrow> string \<Rightarrow> string"
  format_property :: "PersonProperty \<Rightarrow> string"
  int_truediv :: "int \<Rightarrow> int \<Rightarrow> py_error + real"
  float_truediv :: "real \<Rightarrow> int \<Rightarrow> py_error + real"




section \<open>The transport\<close>

text \<open>
  \<^verbatim>\<open>requests\<close> is outside the repository. What the \<^verbatim>\<open>try\<close> block of \<^verbatim>\<open>_post\<close> can see of
  \<^verbatim>\<open>session.post\<close> is one of four outcomes: a response; an \<^verbatim>\<open>HTTPError\<close> raised by the
  transport itself, with the status code of its response when it has one; another
  \<^verbatim>\<open>RequestException\<close> (no response: connection, timeout); or an exception of another
  class. A response has its status code, the text of the \<^verbatim>\<open>HTTPError\<close> that
  \<^verbatim>\<open>raise_for_status\<close> raises for it, and what \<^verbatim>\<open>r.json()\<close> gives: the parsed body or
  a \<^verbatim>\<open>JSONDecodeError\<close>, which is a \<^verbatim>\<open>RequestException\<close> (requests 2.27 and later; the
  \<^verbatim>\<open>ValueError\<close> of an older requests is an exception of another class).
  \<^verbatim>\<open>raise_for_status\<close> raises for the statuses from 400 to 599 and for no other. The
  transport answers a request knowing the requests issued before it; the log of issued
  requests is the state every operation threads.
\<close>

record request =
  url :: string
  json :: pydict
  request_timeout :: int

datatype json_outcome = Parsed pyval | JSONDecodeError string

record response =
  status_code :: int
  error_text :: string
  json_result :: json_outcome

datatype outcome =
    Responded response
  | HTTPError "int option" string
  | RequestException string
  | Raised py_error

definition raise_for_status :: "response \<Rightarrow> bool" where
  "raise_for_status r = (400 \<le> status_code r \<and> status_code r < 600)"

type_synonym transport = "request list \<Rightarrow> request \<Rightarrow> outcome"

record NovaPoshtaAPI =
  api_key :: string
  timeout :: int

definition BASE_URL :: string where
  "BASE_URL = ''https://api.novaposhta.ua/v2.0/json/''"

definition Status_OK :: int where
  "Status_OK = 200"


text \<open>
  The part of \<^verbatim>\<open>_post\<close> after the \<^verbatim>\<open>try\<close> block, on the parsed body. The message is the
  first non-empty one of the joined \<^verbatim>\<open>errors\<close>, the joined \<^verbatim>\<open>messageCodes\<close> and the
  literal; the second join is evaluated only when the first is empty.
\<close>

definition post_message :: "pydict \<Rightarrow> py_error + string" where
  "post_message body =
     and_then (py_join ''; '' (py_or (get body ''errors'') (PList []))) (\<lambda>m1.
       if m1 \<noteq> [] then Inr m1
       else and_then (py_join ''; '' (py_or (get body ''messageCodes'') (PList []))) (\<lambda>m2.
         Inr (if m2 \<noteq> [] then m2 else ''API error'')))"

definition post_body :: "runtime \<Rightarrow> pyval \<Rightarrow> py_error + pydict" where
  "post_body rt body =
     (case body of
        PDict b \<Rightarrow>
          if \<not> truthy (get_default b ''success'' (PBool False)) then
            and_then (post_message b) (\<lambda>msg.
              let code = (if contains ''API key'' msg \<and> contains ''invalid'' (lower rt msg)
                          then 401 else 400)
              in Inr [(''status'', PBool False), (''status_code'', PInt code),
                      (''error'', PStr msg), (''raw'', body)])
          else Inr (dict_merge [(''status'', PBool True), (''status_code'', PInt Status_OK)] b)
      | _ \<Rightarrow> Inl AttributeError)"

text \<open>
  The \<^verbatim>\<open>try\<close> block of \<^verbatim>\<open>_post\<close> and its two \<^verbatim>\<open>except\<close> clauses, on the outcome of
  \<^verbatim>\<open>session.post\<close>: the failure value returned from a clause, or the parsed body.
\<close>

definition try_post :: "outcome \<Rightarrow> py_error + (pydict + pyval)" where
  "try_post out =
     (case out of
        Responded r \<Rightarrow>
          if raise_for_status r
          then Inr (Inl [(''status'', PBool False), (''status_code'', PInt (status_code r)),
                         (''error'', PStr (error_text r))])
          else (case json_result r of
                  Parsed body \<Rightarrow> Inr (Inr body)
                | JSONDecodeError msg \<Rightarrow>
                    Inr (Inl [(''status'', PBool False), (''status_code'', PInt 400),
                              (''error'', PStr msg)]))
      | HTTPError code msg \<Rightarrow>
          Inr (Inl [(''status'', PBool False),
                    (''status_code'', PInt (case code of None \<Rightarrow> 400 | Some c \<Rightarrow> c)),
                    (''error'', PStr msg)])
      | RequestException msg \<Rightarrow>
          Inr (Inl [(''status'', PBool False), (''status_code'', PInt 400), (''error'', PStr msg)])
      | Raised e \<Rightarrow> Inl e)"

text \<open>
  \<^verbatim>\<open>_post\<close>. \<^verbatim>\<open>props or {}\<close> sends an empty mapping for \<^verbatim>\<open>None\<close>. The request is logged
  whatever comes back.
\<close>

definition post ::
  "runtime \<Rightarrow> transport \<Rightarrow> NovaPoshtaAPI \<Rightarrow> string \<Rightarrow> string \<Rightarrow> pydict option \<Rightarrow>
   request list \<Rightarrow> (py_error + pydict) \<times> request list" where
  "post rt tr self model method props sent =
     (let payload = [(''apiKey'', PStr (api_key self)), (''modelName'', PStr model),
                     (''calledMethod'', PStr method),
                     (''methodProperties'', PDict (case props of None \<Rightarrow> [] | Some p \<Rightarrow> p))];
          req = \<lparr>url = BASE_URL, json = payload, request_timeout = timeout self\<rparr>
      in (case try_post (tr sent req) of
            Inl e \<Rightarrow> Inl e
          | Inr (Inl failure) \<Rightarrow> Inr failure
          | Inr (Inr body) \<Rightarrow> post_body rt body,
          sent @ [req]))"

text \<open>The request \<^verbatim>\<open>_post\<close> issues for a call.\<close>

definition post_request :: "NovaPoshtaAPI \<Rightarrow> string \<Rightarrow> string \<Rightarrow> pydict option \<Rightarrow> request" where
  "post_request self model method props =
     \<lparr>url = BASE_URL,
      json = [(''apiKey'', PStr (api_key self)), (''modelName'', PStr model),
              (''calledMethod'', PStr method),
              (''methodProperties'', PDict (case props of None \<Rightarrow> [] | Some p \<Rightarrow> p))],
      request_timeout = timeout self\<rparr>"

section \<open>List results\<close>





section \<open>Address resolution\<close>















section \<open>Counterparties\<close>

fun PersonProperty_value :: "PersonProperty \<Rightarrow> string" where
  "PersonProperty_value SENDER = ''Sender''"
| "PersonProperty_value RECIPIENT = ''Recipient''"














section \<open>Waybills\<close>

datatype CargoType = CARGO | PARCEL | MONEY

fun CargoType_value :: "CargoType \<Rightarrow> string" where
  "CargoType_value CARGO = ''Cargo''"
| "CargoType_value PARCEL = ''Parcel''"
| "CargoType_value MONEY = ''Money''"

datatype ServiceType = WAREHOUSE_WAREHOUSE

fun ServiceType_value :: "ServiceType \<Rightarrow> string" where
  "ServiceType_value WAREHOUSE_WAREHOUSE = ''WarehouseWarehouse''"

datatype PaymentMethod = CASH | NON_CASH

fun PaymentMethod_value :: "PaymentMethod \<Rightarrow> string" where
  "PaymentMethod_value CASH = ''Cash''"
| "PaymentMethod_value NON_CASH = ''NonCash''"

datatype WarehouseType = POST_MACHINE

fun WarehouseType_value :: "WarehouseType \<Rightarrow> string" where
  "WarehouseType_value POST_MACHINE = ''Postomat''"

text \<open>
  The dataclasses of the two parties. A field of type \<^verbatim>\<open>float\<close> is a real. The
  delivery descriptor and the shipment aggregate follow where they are first used.
\<close>

record NovaPoshtaSender =
  city_identifier :: string
  agent_identifier :: string
  address_identifier :: string
  agent_contact_identifier :: string
  phone :: string
  address :: string
  department_number :: int
  max_weight_allowed :: real

record DeliveryReceiver =
  phone :: string

record NovaPoshtaReceiver =
  city_identifier :: string
  agent_identifier :: string
  address_identifier :: string
  agent_contact_identifier :: string
  address :: string
  department_number :: int
  max_weight_allowed :: real
  delivery_receiver :: DeliveryReceiver

text \<open>\<^verbatim>\<open>set_additional_parameters\<close>.\<close>

definition set_additional_parameters ::
  "runtime \<Rightarrow> NovaPoshtaSender \<Rightarrow> NovaPoshtaReceiver \<Rightarrow> real \<Rightarrow> CargoType \<Rightarrow> bool \<Rightarrow> string \<Rightarrow>
   string \<Rightarrow> pydict" where
  "set_additional_parameters rt sender receiver specified_weight cargo_type backward_delivery
     backward_amount payer_type =
     (let postomat = (contains (WarehouseType_value POST_MACHINE) (NovaPoshtaSender.address sender)
                      \<or> contains (WarehouseType_value POST_MACHINE) (NovaPoshtaReceiver.address receiver));
          cargo_type = (if postomat then PARCEL else cargo_type);
          options_seat =
            (if postomat
             then PList [PDict [(''volumetricVolume'', PStr ''1''), (''volumetricWidth'', PStr ''40''),
                                (''volumetricLength'', PStr ''40''), (''volumetricHeight'', PStr ''30''),
                                (''weight'', PStr (str_of_float rt specified_weight))]]
             else PNone);
          backward_delivery_data =
            (if backward_delivery
             then PList [PDict [(''PayerType'', PStr payer_type),
                                (''CargoType'', PStr (CargoType_value MONEY)),
                                (''RedeliveryString'', PStr backward_amount)]]
             else PNone)
      in [(''options_seat'', options_seat), (''cargo_type'', PStr (CargoType_value cargo_type)),
          (''backward_delivery_data'', backward_delivery_data)])"

text \<open>The fallback description of a waybill, a Ukrainian literal, as its UTF-8 bytes.\<close>

definition default_description :: string where
  "default_description =
     [CHR 0xD0, CHR 0x94, CHR 0xD0, CHR 0xBE, CHR 0xD1, CHR 0x81, CHR 0xD1, CHR 0x82, CHR 0xD0,
      CHR 0xB0, CHR 0xD0, CHR 0xB2, CHR 0xD0, CHR 0xBA, CHR 0xD0, CHR 0xB0, CHR 0x20, CHR 0xD1,
      CHR 0x83, CHR 0x20, CHR 0xD0, CHR 0xB2, CHR 0xD1, CHR 0x96, CHR 0xD0, CHR 0xB4, CHR 0xD0,
      CHR 0xB4, CHR 0xD1, CHR 0x96, CHR 0xD0, CHR 0xBB, CHR 0xD0, CHR 0xB5, CHR 0xD0, CHR 0xBD,
      CHR 0xD0, CHR 0xBD, CHR 0xD1, CHR 0x8F]"

text \<open>
  The property set \<^verbatim>\<open>create_waybill\<close> builds once its checks have passed. The three
  keys of \<open>ap\<close> are always there, so reading them cannot raise.
\<close>

definition create_waybill_props ::
  "runtime \<Rightarrow> NovaPoshtaSender \<Rightarrow> NovaPoshtaReceiver \<Rightarrow> string \<Rightarrow> datetime \<Rightarrow> real \<Rightarrow> string \<Rightarrow>
   string \<Rightarrow> CargoType \<Rightarrow> string \<Rightarrow> int \<Rightarrow> bool \<Rightarrow> real \<Rightarrow> real \<Rightarrow> pydict" where
  "create_waybill_props rt sender receiver declared_price delivery_date specified_weight
     payment_method payer_type cargo_type comment goods_count with_backward_delivery
     backward_amount postpaid_amount =
     (let ap = set_additional_parameters rt sender receiver specified_weight cargo_type
                 with_backward_delivery (str_of_float rt backward_amount) payer_type;
          props =
            [(''PayerType'', PStr payer_type),
             (''PaymentMethod'', PStr payment_method),
             (''DateTime'', PStr (strftime rt delivery_date ''%d.%m.%Y'')),
             (''CargoType'', get ap ''cargo_type''),
             (''Weight'', PStr (str_of_float rt specified_weight)),
             (''ServiceType'', PStr (ServiceType_value WAREHOUSE_WAREHOUSE)),
             (''SeatsAmount'', PInt goods_count),
             (''Description'', PStr (if comment \<noteq> [] then comment else default_description)),
             (''Cost'', PStr declared_price),
             (''CitySender'', PStr (NovaPoshtaSender.city_identifier sender)),
             (''Sender'', PStr (NovaPoshtaSender.agent_identifier sender)),
             (''SenderAddress'', PStr (NovaPoshtaSender.address_identifier sender)),
             (''ContactSender'', PStr (NovaPoshtaSender.agent_contact_identifier sender)),
             (''SendersPhone'', PStr (NovaPoshtaSender.phone sender)),
             (''RecipientsPhone'', PStr (DeliveryReceiver.phone (delivery_receiver receiver))),
             (''CityRecipient'', PStr (NovaPoshtaReceiver.city_identifier receiver)),
             (''Recipient'', PStr (NovaPoshtaReceiver.agent_identifier receiver)),
             (''RecipientAddress'', PStr (NovaPoshtaReceiver.address_identifier receiver)),
             (''ContactRecipient'', PStr (NovaPoshtaReceiver.agent_contact_identifier receiver)),
             (''OptionsSeat'', get ap ''options_seat'')]
      in if payment_method = PaymentMethod_value CASH
         then AList.update ''BackwardDeliveryData'' (get ap ''backward_delivery_data'') props
         else AList.update ''AfterpaymentOnGoodsCost'' (PStr (str_of_float rt postpaid_amount)) props)"

text \<open>
  \<^verbatim>\<open>create_waybill\<close>. \<^verbatim>\<open>not x\<close> on a float holds for zero only. A check that fails
  returns before \<^verbatim>\<open>_post\<close> is reached, leaving the log as it was.
\<close>

definition create_waybill ::
  "runtime \<Rightarrow> transport \<Rightarrow> NovaPoshtaAPI \<Rightarrow> NovaPoshtaSender \<Rightarrow> NovaPoshtaReceiver \<Rightarrow> string \<Rightarrow>
   datetime \<Rightarrow> real \<Rightarrow> string \<Rightarrow> string \<Rightarrow> CargoType \<Rightarrow> string \<Rightarrow> int \<Rightarrow> bool \<Rightarrow> real \<Rightarrow> real \<Rightarrow>
   request list \<Rightarrow> (py_error + pydict) \<times> request list" where
  "create_waybill rt tr self sender receiver declared_price delivery_date specified_weight
     payment_method payer_type cargo_type comment goods_count with_backward_delivery
     backward_amount postpaid_amount sent =
     (if NovaPoshtaSender.max_weight_allowed sender = 0
         \<or> NovaPoshtaReceiver.max_weight_allowed receiver = 0
      then (Inr [(''status'', PBool False), (''status_code'', PInt 400),
                 (''error'', PStr ''Invalid max weight'')], sent)
      else if specified_weight > NovaPoshtaSender.max_weight_allowed sender
      then (Inr [(''status'', PBool False), (''status_code'', PInt 400),
                 (''error'', PStr ''Too much specified weight (sender)'')], sent)
      else if specified_weight > NovaPoshtaReceiver.max_weight_allowed receiver
      then (Inr [(''status'', PBool False), (''status_code'', PInt 400),
                 (''error'', PStr ''Too much specified weight (receiver)'')], sent)
      else post rt tr self ''InternetDocument'' ''save''
             (Some (create_waybill_props rt sender receiver declared_price delivery_date
                      specified_weight payment_method payer_type cargo_type comment goods_count
                      with_backward_delivery backward_amount postpaid_amount)) sent)"

record DeliveryInfo =
  ttn :: string
  estimate_order_price :: real
  payer :: string
  comment :: string

definition get_payment_method_display :: "DeliveryInfo \<Rightarrow> string" where
  "get_payment_method_display self = PaymentMethod_value NON_CASH"

record NovaPoshta =
  sender :: NovaPoshtaSender
  receiver :: NovaPoshtaReceiver
  specified_weight :: real
  with_backward_delivery :: bool
  backward_amount :: real
  postpaid_amount :: real
  delivery_identifier :: string
  delivery_date :: datetime
  delivery :: DeliveryInfo

text \<open>
  \<^verbatim>\<open>update_waybill\<close>. The cargo type is left at its default, \<^verbatim>\<open>CargoType.CARGO\<close>.
\<close>

definition update_waybill_props :: "runtime \<Rightarrow> NovaPoshta \<Rightarrow> int \<Rightarrow> pydict" where
  "update_waybill_props rt nova_poshta goods_count =
     (let ap = set_additional_parameters rt (sender nova_poshta) (receiver nova_poshta)
                 (specified_weight nova_poshta) CARGO (with_backward_delivery nova_poshta)
                 (str_of_float rt (backward_amount nova_poshta)) (payer (delivery nova_poshta));
          pm = get_payment_method_display (delivery nova_poshta);
          props =
            [(''Ref'', PStr (delivery_identifier nova_poshta)),
             (''PayerType'', PStr (payer (delivery nova_poshta))),
             (''PaymentMethod'', PStr pm),
             (''DateTime'', PStr (strftime rt (delivery_date nova_poshta) ''%d.%m.%Y'')),
             (''CargoType'', get ap ''cargo_type''),
             (''Weight'', PStr (str_of_float rt (specified_weight nova_poshta))),
             (''ServiceType'', PStr (ServiceType_value WAREHOUSE_WAREHOUSE)),
             (''SeatsAmount'', PInt goods_count),
             (''Description'', PStr (if comment (delivery nova_poshta) \<noteq> []
                                     then comment (delivery nova_poshta) else default_description)),
             (''Cost'', PStr (str_of_float rt (estimate_order_price (delivery nova_poshta)))),
             (''CitySender'', PStr (NovaPoshtaSender.city_identifier (sender nova_poshta))),
             (''Sender'', PStr (NovaPoshtaSender.agent_identifier (sender nova_poshta))),
             (''SenderAddress'', PStr (NovaPoshtaSender.address_identifier (sender nova_poshta))),
             (''ContactSender'', PStr (NovaPoshtaSender.agent_contact_identifier (sender nova_poshta))),
             (''SendersPhone'', PStr (NovaPoshtaSender.phone (sender nova_poshta))),
             (''RecipientsPhone'',
                PStr (DeliveryReceiver.phone (delivery_receiver (receiver nova_poshta)))),
             (''CityRecipient'', PStr (NovaPoshtaReceiver.city_identifier (receiver nova_poshta))),
             (''Recipient'', PStr (NovaPoshtaReceiver.agent_identifier (receiver nova_poshta))),
             (''RecipientAddress'', PStr (NovaPoshtaReceiver.address_identifier (receiver nova_poshta))),
             (''ContactRecipient'',
                PStr (NovaPoshtaReceiver.agent_contact_identifier (receiver nova_poshta))),
             (''VolumeGeneral'', PNone)]
      in if pm = PaymentMethod_value CASH
         then AList.update ''BackwardDeliveryData'' (get ap ''backward_delivery_data'') props
         else AList.update ''AfterpaymentOnGoodsCost''
                (PStr (str_of_float rt (postpaid_amount nova_poshta))) props)"

definition update_waybill ::
  "runtime \<Rightarrow> transport \<Rightarrow> NovaPoshtaAPI \<Rightarrow> NovaPoshta \<Rightarrow> int \<Rightarrow>
   request list \<Rightarrow> (py_error + pydict) \<times> request list" where
  "update_waybill rt tr self nova_poshta goods_count sent =
     post rt tr self ''InternetDocument'' ''update''
       (Some (update_waybill_props rt nova_poshta goods_count)) sent"

section \<open>A runtime for worked examples\<close>

text \<open>
  One choice of the built-ins, used where a statement is evaluated on a concrete input:
  ASCII case mapping and white space, plain decimal numerals, whole-number floats
  printed with \<open>.0\<close>, a date printed as day, month and year with dots, an enum member
  printed as its value, the quotient of two ints rounded to the nearest double (ties to
  even, 53 significant bits, exponents from \<open>-1022\<close>, OverflowError from \<open>2 ^ 1024\<close> on),
  and the quotient of a float by an int taken exactly, as the examples divide no float.
\<close>

definition ascii_lower_char :: "char \<Rightarrow> char" where
  "ascii_lower_char c =
     (case map_of (zip ''ABCDEFGHIJKLMNOPQRSTUVWXYZ'' ''abcdefghijklmnopqrstuvwxyz'') c of
        None \<Rightarrow> c
      | Some l \<Rightarrow> l)"

definition ascii_space :: "char \<Rightarrow> bool" where
  "ascii_space c =
     (c \<in> set [CHR 0x09, CHR 0x0A, CHR 0x0B, CHR 0x0C, CHR 0x0D, CHR 0x1C, CHR 0x1D, CHR 0x1E,
                CHR 0x1F, CHR 0x20])"

definition ascii_strip :: "string \<Rightarrow> string" where
  "ascii_strip s = rev (dropWhile ascii_space (rev (dropWhile ascii_space s)))"

function decimal :: "nat \<Rightarrow> string" where
  "decimal n =
     (if n < 10 then [''0123456789'' ! n]
      else decimal (n div 10) @ [''0123456789'' ! (n mod 10)])"
  by pat_completeness auto
termination
  by (relation "measure id") auto

definition decimal_int :: "int \<Rightarrow> string" where
  "decimal_int i = (if i < 0 then ''-'' @ decimal (nat (- i)) else decimal (nat i))"

definition digit_value :: "char \<Rightarrow> nat option" where
  "digit_value c = map_of (zip ''0123456789'' [0, 1, 2, 3, 4, 5, 6, 7, 8, 9]) c"

fun parse_digits :: "string \<Rightarrow> nat \<Rightarrow> nat option" where
  "parse_digits [] acc = Some acc"
| "parse_digits (c # cs) acc =
     (case digit_value c of None \<Rightarrow> None | Some d \<Rightarrow> parse_digits cs (10 * acc + d))"

definition parse_int :: "string \<Rightarrow> int option" where
  "parse_int s =
     (case s of
        [] \<Rightarrow> None
      | c # cs \<Rightarrow>
          if c = CHR ''-''
          then (if cs = [] then None else map_option (\<lambda>n. - int n) (parse_digits cs 0))
          else map_option int (parse_digits s 0))"

definition two_digits :: "int \<Rightarrow> string" where
  "two_digits n = (if 0 \<le> n \<and> n < 10 then ''0'' @ decimal_int n else decimal_int n)"

definition pow2 :: "int \<Rightarrow> real" where
  "pow2 e = (if 0 \<le> e then 2 ^ nat e else 1 / 2 ^ nat (- e))"

function bit_length :: "nat \<Rightarrow> nat" where
  "bit_length n = (if n = 0 then 0 else Suc (bit_length (n div 2)))"
  by pat_completeness auto
termination
  by (relation "measure id") auto

definition round_half_even :: "real \<Rightarrow> int" where
  "round_half_even y =
     (let f = \<lfloor>y\<rfloor> in
      if y - of_int f < 1 / 2 then f
      else if 1 / 2 < y - of_int f then f + 1
      else if even f then f else f + 1)"

definition double_quotient :: "int \<Rightarrow> int \<Rightarrow> real" where
  "double_quotient n s =
     (if n = 0 then 0
      else
        let e0 = int (bit_length (nat \<bar>n\<bar>)) - int (bit_length (nat \<bar>s\<bar>));
            e = (if pow2 e0 * of_int \<bar>s\<bar> \<le> of_int \<bar>n\<bar> then e0 else e0 - 1);
            u = pow2 (max e (- 1022) - 52)
        in of_int (round_half_even (of_int n / of_int s / u)) * u)"

definition ascii_runtime :: runtime where
  "ascii_runtime =
     \<lparr>lower = map ascii_lower_char,
      strip = ascii_strip,
      str_of_float = (\<lambda>r. decimal_int \<lfloor>r\<rfloor> @ ''.0''),
      str_of_int = decimal_int,
      int_of_str = parse_int,
      strftime = (\<lambda>d fmt. two_digits (day d) @ ''.'' @ two_digits (month d) @ ''.'' @ decimal_int (year d)),
      format_property = PersonProperty_value,
      int_truediv = (\<lambda>n s. if s = 0 then Inl ZeroDivisionError
                           else if 2 ^ 1024 \<le> \<bar>double_quotient n s\<bar> then Inl OverflowError
                           else Inr (double_quotient n s)),
      float_truediv = (\<lambda>r s. if s = 0 then Inl ZeroDivisionError else Inr (r / of_int s))\<rparr>"

definition ok_response :: "pyval \<Rightarrow> outcome" where
  "ok_response body = Responded \<lparr>status_code = 200, error_text = [], json_result = Parsed body\<rparr>"

definition client :: NovaPoshtaAPI where
  "client = \<lparr>api_key = ''key'', timeout = 20\<rparr>"

text \<open>
  Data for the worked examples: a client, two parties (the receiver at a postal machine),
  a date, a shipment, a transport that never connects, a list of senders with a repeated
  name, a transport that lists two senders and has no contact person for either, a reply
  with two cities, and two warehouses as the carrier sends them.
\<close>

definition kyiv_sender :: NovaPoshtaSender where
  "kyiv_sender =
     \<lparr>NovaPoshtaSender.city_identifier = ''city-1'', NovaPoshtaSender.agent_identifier = ''agent-1'',
      NovaPoshtaSender.address_identifier = ''address-1'',
      NovaPoshtaSender.agent_contact_identifier = ''contact-1'',
      NovaPoshtaSender.phone = ''380501112233'', NovaPoshtaSender.address = ''Branch 5'',
      NovaPoshtaSender.department_number = 5, NovaPoshtaSender.max_weight_allowed = 30\<rparr>"

definition lviv_receiver :: NovaPoshtaReceiver where
  "lviv_receiver =
     \<lparr>NovaPoshtaReceiver.city_identifier = ''city-2'', NovaPoshtaReceiver.agent_identifier = ''agent-2'',
      NovaPoshtaReceiver.address_identifier = ''address-2'',
      NovaPoshtaReceiver.agent_contact_identifier = ''contact-2'',
      NovaPoshtaReceiver.address = ''Postomat 101'',
      NovaPoshtaReceiver.department_number = 101, NovaPoshtaReceiver.max_weight_allowed = 20,
      delivery_receiver = \<lparr>DeliveryReceiver.phone = ''380671112233''\<rparr>\<rparr>"

definition march_7 :: datetime where
  "march_7 = \<lparr>year = 2024, month = 3, day = 7\<rparr>"

definition shipment :: NovaPoshta where
  "shipment =
     \<lparr>sender = kyiv_sender, receiver = lviv_receiver, specified_weight = 2,
      with_backward_delivery = True, backward_amount = 150, postpaid_amount = 150,
      delivery_identifier = ''doc-1'', delivery_date = march_7,
      delivery = \<lparr>ttn = ''20400000000000'', estimate_order_price = 150, payer = ''Recipient'',
                  comment = []\<rparr>\<rparr>"

definition offline :: transport where
  "offline = (\<lambda>_ _. RequestException ''offline'')"







section \<open>Transport failures\<close>

lemma and_then_simps [simp]:
  "and_then (Inl e) f = Inl e"
  "and_then (Inr x) f = f x"
  by (simp_all add: and_then_def)

lemma post_unfold:
  "post rt tr self model method props sent =
     (case try_post (tr sent (post_request self model method props)) of
        Inl e \<Rightarrow> Inl e
      | Inr (Inl failure) \<Rightarrow> Inr failure
      | Inr (Inr body) \<Rightarrow> post_body rt body,
      sent @ [post_request self model method props])"
  by (simp add: post_def post_request_def Let_def)

lemma try_post_offline [simp]:
  "try_post (offline sent req) =
     Inr (Inl [(''status'', PBool False), (''status_code'', PInt 400), (''error'', PStr ''offline'')])"
  by (simp add: try_post_def offline_def)

lemma try_post_ok [simp]: "try_post (ok_response body) = Inr (Inr body)"
  by (simp add: try_post_def ok_response_def raise_for_status_def)




section \<open>The list-result normalizer\<close>













section \<open>Waybill checks and property sets\<close>

lemma contains_sublist: "contains sub s = sublist sub s"
  by (induction s) (simp_all add: sublist_Cons_right)

lemma contains_iff: "contains sub s \<longleftrightarrow> (\<exists>p q. s = p @ sub @ q)"
  by (simp add: contains_sublist sublist_def)

lemma create_waybill_props_keys:
  "map fst (create_waybill_props rt s r price d w pm pt ct cm gc bd ba pa) =
   [''PayerType'', ''PaymentMethod'', ''DateTime'', ''CargoType'', ''Weight'', ''ServiceType'',
    ''SeatsAmount'', ''Description'', ''Cost'', ''CitySender'', ''Sender'', ''SenderAddress'',
    ''ContactSender'', ''SendersPhone'', ''RecipientsPhone'', ''CityRecipient'', ''Recipient'',
    ''RecipientAddress'', ''ContactRecipient'', ''OptionsSeat'',
    (if pm = ''Cash'' then ''BackwardDeliveryData'' else ''AfterpaymentOnGoodsCost'')]"
  by (simp add: create_waybill_props_def Let_def)

lemma create_waybill_props_afterpayment:
  "map_of (create_waybill_props rt s r price d w pm pt ct cm gc bd ba pa)
     ''AfterpaymentOnGoodsCost'' =
   (if pm = ''Cash'' then None else Some (PStr (str_of_float rt pa)))"
  by (simp add: create_waybill_props_def Let_def)

lemma update_waybill_props_keys:
  "map fst (update_waybill_props rt np gc) =
   [''Ref'', ''PayerType'', ''PaymentMethod'', ''DateTime'', ''CargoType'', ''Weight'',
    ''ServiceType'', ''SeatsAmount'', ''Description'', ''Cost'', ''CitySender'', ''Sender'',
    ''SenderAddress'', ''ContactSender'', ''SendersPhone'', ''RecipientsPhone'', ''CityRecipient'',
    ''Recipient'', ''RecipientAddress'', ''ContactRecipient'', ''VolumeGeneral'',
    ''AfterpaymentOnGoodsCost'']"
  by (simp add: update_waybill_props_def Let_def get_payment_method_display_def)

lemma update_waybill_props_values:
  "map_of (update_waybill_props rt np gc) ''PaymentMethod'' = Some (PStr ''NonCash'')"
  "map_of (update_waybill_props rt np gc) ''AfterpaymentOnGoodsCost'' =
     Some (PStr (str_of_float rt (postpaid_amount np)))"
  by (simp_all add: update_waybill_props_def Let_def get_payment_method_display_def)

text \<open>
  C3, as the code has it. \<^verbatim>\<open>create_waybill\<close> checks before any network call: if the
  maximum weight of the sender or of the receiver is zero, it returns
  \<^verbatim>\<open>{status: False, status_code: 400, error: "Invalid max weight"}\<close>; otherwise, if the
  specified weight exceeds the sender's maximum, it returns status code 400 with the
  sender's message; otherwise, if it exceeds the receiver's maximum, status code 400 with
  the receiver's message. In all three cases the log of requests is left as it was.
\<close>

theorem create_waybill_local_checks:
  "(NovaPoshtaSender.max_weight_allowed s = 0 \<or> NovaPoshtaReceiver.max_weight_allowed r = 0 \<longrightarrow>
      create_waybill rt tr self s r price d w pm pt ct cm gc bd ba pa sent =
        (Inr [(''status'', PBool False), (''status_code'', PInt 400),
              (''error'', PStr ''Invalid max weight'')], sent))
   \<and> (NovaPoshtaSender.max_weight_allowed s \<noteq> 0 \<and> NovaPoshtaReceiver.max_weight_allowed r \<noteq> 0
        \<and> w > NovaPoshtaSender.max_weight_allowed s \<longrightarrow>
      create_waybill rt tr self s r price d w pm pt ct cm gc bd ba pa sent =
        (Inr [(''status'', PBool False), (''status_code'', PInt 400),
              (''error'', PStr ''Too much specified weight (sender)'')], sent))
   \<and> (NovaPoshtaSender.max_weight_allowed s \<noteq> 0 \<and> NovaPoshtaReceiver.max_weight_allowed r \<noteq> 0
        \<and> w \<le> NovaPoshtaSender.max_weight_allowed s
        \<and> w > NovaPoshtaReceiver.max_weight_allowed r \<longrightarrow>
      create_waybill rt tr self s r price d w pm pt ct cm gc bd ba pa sent =
        (Inr [(''status'', PBool False), (''status_code'', PInt 400),
              (''error'', PStr ''Too much specified weight (receiver)'')], sent))"
  by (simp add: create_waybill_def)

theorem create_waybill_local_checks_witness:
  "create_waybill ascii_runtime offline client
       (kyiv_sender\<lparr>NovaPoshtaSender.max_weight_allowed := 0\<rparr>) lviv_receiver
       ''100'' march_7 2 ''NonCash'' ''Sender'' CARGO [] 1 False 0 0 [] =
     (Inr [(''status'', PBool False), (''status_code'', PInt 400),
           (''error'', PStr ''Invalid max weight'')], [])
   \<and> create_waybill ascii_runtime offline client kyiv_sender lviv_receiver
       ''100'' march_7 31 ''NonCash'' ''Sender'' CARGO [] 1 False 0 0 [] =
     (Inr [(''status'', PBool False), (''status_code'', PInt 400),
           (''error'', PStr ''Too much specified weight (sender)'')], [])
   \<and> create_waybill ascii_runtime offline client kyiv_sender lviv_receiver
       ''100'' march_7 25 ''NonCash'' ''Sender'' CARGO [] 1 False 0 0 [] =
     (Inr [(''status'', PBool False), (''status_code'', PInt 400),
           (''error'', PStr ''Too much specified weight (receiver)'')], [])"
  using
    create_waybill_local_checks [of "kyiv_sender\<lparr>NovaPoshtaSender.max_weight_allowed := 0\<rparr>"
      lviv_receiver ascii_runtime offline client "''100''" march_7 2 "''NonCash''" "''Sender''"
      CARGO "[]" 1 False 0 0 "[]"]
    create_waybill_local_checks [of kyiv_sender lviv_receiver ascii_runtime offline client
      "''100''" march_7 31 "''NonCash''" "''Sender''" CARGO "[]" 1 False 0 0 "[]"]
    create_waybill_local_checks [of kyiv_sender lviv_receiver ascii_runtime offline client
      "''100''" march_7 25 "''NonCash''" "''Sender''" CARGO "[]" 1 False 0 0 "[]"]
  by (simp add: kyiv_sender_def lviv_receiver_def)

text \<open>
  A maximum weight that is not positive need not be rejected as invalid: with a
  sender's maximum of \<open>-1\<close> a weight of 5 is reported as too heavy for the sender, and
  with both maxima at \<open>-1\<close> a weight of \<open>-2\<close> passes every check and a request is issued.
\<close>

theorem create_waybill_negative_max_counterexample:
  "NovaPoshtaSender.max_weight_allowed (kyiv_sender\<lparr>NovaPoshtaSender.max_weight_allowed := - 1\<rparr>) \<le> 0
   \<and> create_waybill ascii_runtime offline client
       (kyiv_sender\<lparr>NovaPoshtaSender.max_weight_allowed := - 1\<rparr>) lviv_receiver
       ''100'' march_7 5 ''NonCash'' ''Sender'' CARGO [] 1 False 0 0 [] =
     (Inr [(''status'', PBool False), (''status_code'', PInt 400),
           (''error'', PStr ''Too much specified weight (sender)'')], [])
   \<and> fst (create_waybill ascii_runtime offline client
       (kyiv_sender\<lparr>NovaPoshtaSender.max_weight_allowed := - 1\<rparr>) lviv_receiver
       ''100'' march_7 5 ''NonCash'' ''Sender'' CARGO [] 1 False 0 0 []) \<noteq>
     Inr [(''status'', PBool False), (''status_code'', PInt 400),
          (''error'', PStr ''Invalid max weight'')]
   \<and> length (snd (create_waybill ascii_runtime offline client
       (kyiv_sender\<lparr>NovaPoshtaSender.max_weight_allowed := - 1\<rparr>)
       (lviv_receiver\<lparr>NovaPoshtaReceiver.max_weight_allowed := - 1\<rparr>)
       ''100'' march_7 (- 2) ''NonCash'' ''Sender'' CARGO [] 1 False 0 0 [])) = 1"
  by (simp add: create_waybill_def kyiv_sender_def lviv_receiver_def post_unfold)

text \<open>
  C4. The property set built by \<^verbatim>\<open>create_waybill\<close> has the key \<^verbatim>\<open>BackwardDeliveryData\<close>
  and not \<^verbatim>\<open>AfterpaymentOnGoodsCost\<close> when the payment method is \<^verbatim>\<open>"Cash"\<close>; for every
  other payment method it has \<^verbatim>\<open>AfterpaymentOnGoodsCost\<close>, bound to the postpaid amount
  as a string, and not \<^verbatim>\<open>BackwardDeliveryData\<close>. The two keys are never both there. It
  is this property set that the call sends when its checks pass.
\<close>

theorem create_waybill_payment_keys:
  "(pm = ''Cash'' \<longrightarrow>
      ''BackwardDeliveryData'' \<in> fst ` set (create_waybill_props rt s r price d w pm pt ct cm gc bd ba pa)
      \<and> ''AfterpaymentOnGoodsCost'' \<notin> fst ` set (create_waybill_props rt s r price d w pm pt ct cm gc bd ba pa))
   \<and> (pm \<noteq> ''Cash'' \<longrightarrow>
      map_of (create_waybill_props rt s r price d w pm pt ct cm gc bd ba pa) ''AfterpaymentOnGoodsCost'' =
        Some (PStr (str_of_float rt pa))
      \<and> ''BackwardDeliveryData'' \<notin> fst ` set (create_waybill_props rt s r price d w pm pt ct cm gc bd ba pa))
   \<and> \<not> (''BackwardDeliveryData'' \<in> fst ` set (create_waybill_props rt s r price d w pm pt ct cm gc bd ba pa)
        \<and> ''AfterpaymentOnGoodsCost'' \<in> fst ` set (create_waybill_props rt s r price d w pm pt ct cm gc bd ba pa))
   \<and> (NovaPoshtaSender.max_weight_allowed s \<noteq> 0 \<and> NovaPoshtaReceiver.max_weight_allowed r \<noteq> 0
        \<and> w \<le> NovaPoshtaSender.max_weight_allowed s \<and> w \<le> NovaPoshtaReceiver.max_weight_allowed r \<longrightarrow>
      snd (create_waybill rt tr self s r price d w pm pt ct cm gc bd ba pa sent) =
        sent @ [post_request self ''InternetDocument'' ''save''
                  (Some (create_waybill_props rt s r price d w pm pt ct cm gc bd ba pa))])"
proof -
  have keys: "fst ` set (create_waybill_props rt s r price d w pm pt ct cm gc bd ba pa) =
      set (map fst (create_waybill_props rt s r price d w pm pt ct cm gc bd ba pa))"
    by simp
  show ?thesis
    unfolding keys create_waybill_props_keys
    by (simp add: create_waybill_props_afterpayment create_waybill_def post_unfold)
qed

theorem create_waybill_payment_keys_witness:
  "map fst (create_waybill_props ascii_runtime kyiv_sender lviv_receiver ''100'' march_7 2
       ''Cash'' ''Sender'' CARGO [] 1 True 150 0) ! 20 = ''BackwardDeliveryData''
   \<and> ''AfterpaymentOnGoodsCost'' \<notin> fst ` set (create_waybill_props ascii_runtime kyiv_sender
       lviv_receiver ''100'' march_7 2 ''Cash'' ''Sender'' CARGO [] 1 True 150 0)
   \<and> map_of (create_waybill_props ascii_runtime kyiv_sender lviv_receiver ''100'' march_7 2
       ''NonCash'' ''Sender'' CARGO [] 1 False 0 150) ''AfterpaymentOnGoodsCost'' =
     Some (PStr ''150.0'')
   \<and> ''BackwardDeliveryData'' \<notin> fst ` set (create_waybill_props ascii_runtime kyiv_sender
       lviv_receiver ''100'' march_7 2 ''NonCash'' ''Sender'' CARGO [] 1 False 0 150)
   \<and> snd (create_waybill ascii_runtime offline client kyiv_sender lviv_receiver ''100'' march_7 2
       ''NonCash'' ''Sender'' CARGO [] 1 False 0 150 []) =
     [post_request client ''InternetDocument'' ''save''
        (Some (create_waybill_props ascii_runtime kyiv_sender lviv_receiver ''100'' march_7 2
           ''NonCash'' ''Sender'' CARGO [] 1 False 0 150))]"
  using
    create_waybill_payment_keys [of "''Cash''" ascii_runtime kyiv_sender lviv_receiver "''100''"
      march_7 2 "''Sender''" CARGO "[]" 1 True 150 0 offline client "[]"]
    create_waybill_payment_keys [of "''NonCash''" ascii_runtime kyiv_sender lviv_receiver "''100''"
      march_7 2 "''Sender''" CARGO "[]" 1 False 0 150 offline client "[]"]
  by (simp add: create_waybill_props_keys kyiv_sender_def lviv_receiver_def ascii_runtime_def
      decimal_int_def)

text \<open>
  C7. If the address of the sender or of the receiver has \<^verbatim>\<open>"Postomat"\<close> as a substring,
  \<^verbatim>\<open>set_additional_parameters\<close> returns the cargo type \<^verbatim>\<open>"Parcel"\<close>, whatever cargo type
  it was given, and a one-element \<^verbatim>\<open>options_seat\<close> list whose descriptor has
  \<^verbatim>\<open>volumetricVolume "1"\<close>, \<^verbatim>\<open>volumetricWidth "40"\<close>, \<^verbatim>\<open>volumetricLength "40"\<close>,
  \<^verbatim>\<open>volumetricHeight "30"\<close> and the specified weight as a string. Whenever backward
  delivery is requested, it returns a one-element \<^verbatim>\<open>backward_delivery_data\<close> list whose
  descriptor has the payer role, the cargo type \<^verbatim>\<open>"Money"\<close> and the redelivery amount
  string.
\<close>

theorem set_additional_parameters_postomat:
  "((\<exists>p q. NovaPoshtaSender.address s = p @ ''Postomat'' @ q)
      \<or> (\<exists>p q. NovaPoshtaReceiver.address r = p @ ''Postomat'' @ q) \<longrightarrow>
      get (set_additional_parameters rt s r w ct bd amount pt) ''cargo_type'' = PStr ''Parcel''
      \<and> get (set_additional_parameters rt s r w ct bd amount pt) ''options_seat'' =
          PList [PDict [(''volumetricVolume'', PStr ''1''), (''volumetricWidth'', PStr ''40''),
                        (''volumetricLength'', PStr ''40''), (''volumetricHeight'', PStr ''30''),
                        (''weight'', PStr (str_of_float rt w))]])
   \<and> (bd \<longrightarrow>
      get (set_additional_parameters rt s r w ct bd amount pt) ''backward_delivery_data'' =
        PList [PDict [(''PayerType'', PStr pt), (''CargoType'', PStr ''Money''),
                      (''RedeliveryString'', PStr amount)]])"
  by (simp add: set_additional_parameters_def Let_def get_def contains_iff)

theorem set_additional_parameters_postomat_witness:
  "get (set_additional_parameters ascii_runtime kyiv_sender lviv_receiver 2 CARGO True ''150.0''
        ''Recipient'') ''cargo_type'' = PStr ''Parcel''
   \<and> get (set_additional_parameters ascii_runtime kyiv_sender lviv_receiver 2 CARGO True ''150.0''
        ''Recipient'') ''options_seat'' =
      PList [PDict [(''volumetricVolume'', PStr ''1''), (''volumetricWidth'', PStr ''40''),
                    (''volumetricLength'', PStr ''40''), (''volumetricHeight'', PStr ''30''),
                    (''weight'', PStr ''2.0'')]]
   \<and> get (set_additional_parameters ascii_runtime kyiv_sender lviv_receiver 2 CARGO True ''150.0''
        ''Recipient'') ''backward_delivery_data'' =
      PList [PDict [(''PayerType'', PStr ''Recipient''), (''CargoType'', PStr ''Money''),
                    (''RedeliveryString'', PStr ''150.0'')]]"
proof -
  have marker: "NovaPoshtaReceiver.address lviv_receiver = [] @ ''Postomat'' @ '' 101''"
    by (simp add: lviv_receiver_def)
  have found: "(\<exists>p q. NovaPoshtaSender.address kyiv_sender = p @ ''Postomat'' @ q)
      \<or> (\<exists>p q. NovaPoshtaReceiver.address lviv_receiver = p @ ''Postomat'' @ q)"
    using marker by blast
  have weight: "str_of_float ascii_runtime 2 = ''2.0''"
    by (simp add: ascii_runtime_def decimal_int_def)
  note fact = set_additional_parameters_postomat [of kyiv_sender lviv_receiver ascii_runtime 2
      CARGO True "''150.0''" "''Recipient''"]
  from fact found have seat:
    "get (set_additional_parameters ascii_runtime kyiv_sender lviv_receiver 2 CARGO True ''150.0''
        ''Recipient'') ''cargo_type'' = PStr ''Parcel''
     \<and> get (set_additional_parameters ascii_runtime kyiv_sender lviv_receiver 2 CARGO True ''150.0''
        ''Recipient'') ''options_seat'' =
      PList [PDict [(''volumetricVolume'', PStr ''1''), (''volumetricWidth'', PStr ''40''),
                    (''volumetricLength'', PStr ''40''), (''volumetricHeight'', PStr ''30''),
                    (''weight'', PStr (str_of_float ascii_runtime 2))]]"
    by blast
  from fact have money:
    "get (set_additional_parameters ascii_runtime kyiv_sender lviv_receiver 2 CARGO True ''150.0''
        ''Recipient'') ''backward_delivery_data'' =
      PList [PDict [(''PayerType'', PStr ''Recipient''), (''CargoType'', PStr ''Money''),
                    (''RedeliveryString'', PStr ''150.0'')]]"
    by blast
  from seat money show ?thesis
    unfolding weight by blast
qed

text \<open>
  C8. \<^verbatim>\<open>get_payment_method_display\<close> returns \<^verbatim>\<open>"NonCash"\<close> for every delivery descriptor,
  whatever its payer; \<^verbatim>\<open>update_waybill\<close> sends that as \<^verbatim>\<open>PaymentMethod\<close>, and the property
  set it builds and sends has the key \<^verbatim>\<open>AfterpaymentOnGoodsCost\<close> and never the key
  \<^verbatim>\<open>BackwardDeliveryData\<close>, for every shipment.
\<close>

theorem update_waybill_always_non_cash:
  "get_payment_method_display info = ''NonCash''
   \<and> map_of (update_waybill_props rt np gc) ''PaymentMethod'' =
       Some (PStr (get_payment_method_display (delivery np)))
   \<and> ''AfterpaymentOnGoodsCost'' \<in> fst ` set (update_waybill_props rt np gc)
   \<and> ''BackwardDeliveryData'' \<notin> fst ` set (update_waybill_props rt np gc)
   \<and> snd (update_waybill rt tr self np gc sent) =
       sent @ [post_request self ''InternetDocument'' ''update''
                 (Some (update_waybill_props rt np gc))]"
proof -
  have keys: "fst ` set (update_waybill_props rt np gc) =
      set (map fst (update_waybill_props rt np gc))"
    by simp
  show ?thesis
    unfolding keys update_waybill_props_keys
    by (simp add: update_waybill_props_values get_payment_method_display_def update_waybill_def
        post_unfold)
qed

theorem update_waybill_always_non_cash_witness:
  "get_payment_method_display (delivery shipment) = ''NonCash''
   \<and> payer (delivery shipment) = ''Recipient''
   \<and> with_backward_delivery shipment
   \<and> map_of (update_waybill_props ascii_runtime shipment 1) ''PaymentMethod'' =
       Some (PStr ''NonCash'')
   \<and> ''AfterpaymentOnGoodsCost'' \<in> fst ` set (update_waybill_props ascii_runtime shipment 1)
   \<and> ''BackwardDeliveryData'' \<notin> fst ` set (update_waybill_props ascii_runtime shipment 1)
   \<and> snd (update_waybill ascii_runtime offline client shipment 1 []) =
       [post_request client ''InternetDocument'' ''update''
          (Some (update_waybill_props ascii_runtime shipment 1))]"
proof -
  have stored: "payer (delivery shipment) = ''Recipient'' \<and> with_backward_delivery shipment"
    by (simp add: shipment_def)
  note inst = update_waybill_always_non_cash [of "delivery shipment" ascii_runtime shipment 1
      offline client "[]"]
  from inst have label: "get_payment_method_display (delivery shipment) = ''NonCash''"
    by blast
  from inst have sent_one: "snd (update_waybill ascii_runtime offline client shipment 1 []) =
      [] @ [post_request client ''InternetDocument'' ''update''
          (Some (update_waybill_props ascii_runtime shipment 1))]"
    by blast
  from inst stored label sent_one show ?thesis
    unfolding append_Nil by metis
qed

section \<open>The sender index\<close>








section \<open>Aggregating the senders\<close>













section \<open>Cities\<close>














section \<open>Warehouses\<close>










end
